theory Spec2Isabelle
  imports Complex_Main
begin

section \<open>The dual-learning criterion of pytorch\_translate\<close>

text \<open>
  A shallow embedding of \<^verbatim>\<open>pytorch_translate/dual_learning/dual_learning_criterion.py\<close>
  (class \<^verbatim>\<open>UnsupervisedCriterion\<close>).

  Conventions of the embedding:
  \<^item> Python numbers (\<^verbatim>\<open>int\<close> and \<^verbatim>\<open>float\<close>) are the reals: the arithmetic of the
    source is read as exact arithmetic, \<^verbatim>\<open>math.log(2)\<close> is \<open>ln 2\<close>. The one place where the
    source turns a float into an integer is the length bound of the decoder; there the
    float operations are not read as exact, they are parameters (see \<open>float_ops\<close>);
  \<^item> token ids are integers, a 1-d token tensor is an \<open>int list\<close>;
  \<^item> a Python \<^verbatim>\<open>dict\<close> with string keys is an association list, looked up with
    \<open>map_of\<close>;
  \<^item> every exception the source can raise is a value of \<open>py_error\<close>, and a function that
    can raise returns \<open>py_error + 'a\<close>;
  \<^item> the capabilities the file imports (beam search, collation, the BLEU scorer, the
    task's criterion) are parameters of the functions that call them.
\<close>

datatype py_error =
  IndexError | TypeError | ZeroDivisionError | AssertionError | OverflowError | ValueError

subsection \<open>Logging records\<close>

text \<open>
  A value stored in a logging record is a number or a nested record
  (\<^verbatim>\<open>{"primal": {...}, "dual": {...}}\<close> is a record of two records).
\<close>

datatype logval = Num real | Dict "(string \<times> logval) list"

type_synonym logrec = "(string \<times> logval) list"

text \<open>
  One element of the generator inside \<^verbatim>\<open>sum(...)\<close> of \<^verbatim>\<open>get_logging_output\<close>:
  \<^verbatim>\<open>log[key] if key in log else 0\<close>. The test \<^verbatim>\<open>key in log\<close> raises \<^verbatim>\<open>TypeError\<close> on a
  number; adding a nested record to the running sum raises \<^verbatim>\<open>TypeError\<close> too.
\<close>

fun sub_value :: "string \<Rightarrow> logval \<Rightarrow> py_error + real" where
  "sub_value key (Num x) = Inl TypeError"
| "sub_value key (Dict d) =
     (case map_of d key of
        None \<Rightarrow> Inr 0
      | Some (Num x) \<Rightarrow> Inr x
      | Some (Dict d') \<Rightarrow> Inl TypeError)"

text \<open>\<^verbatim>\<open>sum\<close> over the values of the first record, from the left, starting at 0.\<close>

fun sum_sub :: "string \<Rightarrow> real \<Rightarrow> logval list \<Rightarrow> py_error + real" where
  "sum_sub key acc [] = Inr acc"
| "sum_sub key acc (v # vs) =
     (case sub_value key v of
        Inl e \<Rightarrow> Inl e
      | Inr x \<Rightarrow> sum_sub key (acc + x) vs)"

text \<open>
  The local function \<^verbatim>\<open>get_logging_output(key)\<close>. Only \<^verbatim>\<open>logging_outputs[0]\<close> is read;
  on an empty list the index raises \<^verbatim>\<open>IndexError\<close>.
\<close>

fun get_logging_output :: "logrec list \<Rightarrow> string \<Rightarrow> py_error + logval" where
  "get_logging_output [] key = Inl IndexError"
| "get_logging_output (l0 # rest) key =
     (case map_of l0 key of
        Some v \<Rightarrow> Inr v
      | None \<Rightarrow>
          (case sum_sub key 0 (map snd l0) of
             Inl e \<Rightarrow> Inl e
           | Inr s \<Rightarrow> Inr (Num s)))"

text \<open>
  Python's true division \<^verbatim>\<open>a / b\<close> on logging values: \<^verbatim>\<open>TypeError\<close> when an operand is a
  record, \<^verbatim>\<open>ZeroDivisionError\<close> when the divisor is zero.
\<close>

fun py_truediv :: "logval \<Rightarrow> logval \<Rightarrow> py_error + real" where
  "py_truediv (Num a) (Num b) = (if b = 0 then Inl ZeroDivisionError else Inr (a / b))"
| "py_truediv a b = Inl TypeError"

text \<open>
  \<^verbatim>\<open>aggregate_logging_outputs\<close>. The four lookups come first, then the dictionary display
  (whose first entry divides), then the optional \<^verbatim>\<open>nll_loss\<close> entry. The last division is
  by the float \<^verbatim>\<open>math.log(2)\<close>, which is not zero.
\<close>

definition aggregate_logging_outputs :: "logrec list \<Rightarrow> py_error + logrec" where
  "aggregate_logging_outputs logging_outputs =
     (case get_logging_output logging_outputs ''loss'' of
        Inl e \<Rightarrow> Inl e
      | Inr loss_sum \<Rightarrow>
     (case get_logging_output logging_outputs ''ntokens'' of
        Inl e \<Rightarrow> Inl e
      | Inr ntokens \<Rightarrow>
     (case get_logging_output logging_outputs ''nsentences'' of
        Inl e \<Rightarrow> Inl e
      | Inr nsentences \<Rightarrow>
     (case get_logging_output logging_outputs ''sample_size'' of
        Inl e \<Rightarrow> Inl e
      | Inr sample_size \<Rightarrow>
     (case py_truediv loss_sum sample_size of
        Inl e \<Rightarrow> Inl e
      | Inr q \<Rightarrow>
          (let agg_output =
                 [(''loss'', Num (q / ln 2)),
                  (''ntokens'', ntokens),
                  (''nsentences'', nsentences),
                  (''sample_size'', sample_size)]
           in if sample_size \<noteq> ntokens
              then (case py_truediv loss_sum ntokens of
                      Inl e \<Rightarrow> Inl e
                    | Inr q' \<Rightarrow> Inr (agg_output @ [(''nll_loss'', Num (q' / ln 2))]))
              else Inr agg_output))))))"

subsection \<open>Vocabularies, hypotheses, samples and batches\<close>

text \<open>A vocabulary, as far as the criterion reads it: \<^verbatim>\<open>pad()\<close>, \<^verbatim>\<open>eos()\<close>, \<^verbatim>\<open>unk()\<close>.\<close>

record dictionary =
  pad :: int
  eos :: int
  unk :: int

text \<open>One decoder hypothesis, \<^verbatim>\<open>{"tokens": ..., "score": ...}\<close>; only \<^verbatim>\<open>"tokens"\<close> is read.\<close>

record hypo =
  tokens :: "int list"
  score :: real

text \<open>The samples built in \<^verbatim>\<open>forward\<close>: \<^verbatim>\<open>{"id", "source", "target", "weights"}\<close>.\<close>

record sample =
  id_field :: nat
  source :: "int list"
  target :: "int list"
  weights :: real

text \<open>
  A 2-d token tensor: its rows, and its second dimension \<^verbatim>\<open>size(1)\<close> (the padded length),
  which a tensor has even when it has no row.
\<close>

record tensor2d =
  size1 :: nat
  rows :: "int list list"

text \<open>
  A collated batch: \<^verbatim>\<open>s["id"]\<close>, \<^verbatim>\<open>s["net_input"]["src_tokens"]\<close>, and the other entries of
  \<^verbatim>\<open>s["net_input"]\<close> (\<^verbatim>\<open>"src_lengths"\<close>, \<^verbatim>\<open>"char_inds"\<close>, ...) whose values the
  criterion passes on without reading them.
\<close>

record 'x batch =
  ids :: "nat list"
  src_tokens :: tensor2d
  other_inputs :: "(string \<times> 'x) list"

type_synonym 'x encoder_input = "tensor2d \<times> (string \<times> 'x) list"

text \<open>
  \<^verbatim>\<open>SequenceGenerator.generate(encoder_input, beam_size, maxlen)\<close> for a fixed model and
  vocabulary: one ranked list of hypotheses for each row.
\<close>

type_synonym 'x translator = "'x encoder_input \<Rightarrow> nat \<Rightarrow> int \<Rightarrow> hypo list list"

subsection \<open>Configuration and construction\<close>

record cli_args =
  reward_alpha :: real
  append_eos_to_source :: bool
  beam :: nat
  max_len_a :: real
  max_len_b :: real

text \<open>The attributes set by \<^verbatim>\<open>__init__\<close>, with \<^verbatim>\<open>self.task.use_char_source\<close>.\<close>

record criterion =
  args :: cli_args
  alpha :: real
  remove_eos_at_src :: bool
  use_char_source :: bool

definition init :: "cli_args \<Rightarrow> bool \<Rightarrow> criterion" where
  "init a task_use_char_source =
     \<lparr>args = a,
      alpha = reward_alpha a,
      remove_eos_at_src = (\<not> append_eos_to_source a),
      use_char_source = task_use_char_source\<rparr>"

text \<open>
  The value of a Python \<^verbatim>\<open>float\<close> expression: a finite double (a real number), an
  infinity, or not a number.
\<close>

datatype pyfloat = Finite real | Infinity | NaN

text \<open>
  The interpreter's double arithmetic, as far as line 51 uses it: \<^verbatim>\<open>a * n\<close> for the float
  \<^verbatim>\<open>a\<close> and the integer \<^verbatim>\<open>n\<close>, and \<^verbatim>\<open>p + b\<close> for the float \<^verbatim>\<open>p\<close> that product is. The
  results are rounded to a double, or overflow, as the machine does it.
\<close>

record float_ops =
  fmul :: "real \<Rightarrow> nat \<Rightarrow> pyfloat"
  fadd :: "pyfloat \<Rightarrow> real \<Rightarrow> pyfloat"

text \<open>
  The capabilities \<^verbatim>\<open>forward\<close> calls: the double arithmetic of the interpreter, beam
  search over the forward and the backward
  model, \<^verbatim>\<open>WeightedLanguagePairDataset.collate(samples, pad_idx, eos_idx)\<close>, the value of
  \<^verbatim>\<open>scorer.score(order=4)\<close> of a \<^verbatim>\<open>bleu.Scorer(pad, eos, unk)\<close> after the given
  \<^verbatim>\<open>add(ref, pred)\<close> calls, and \<^verbatim>\<open>self.task.criterion(model, batch)\<close> for each model,
  returning the loss, the sample size and the logging output.
\<close>

record 'x externals =
  float_arith :: float_ops
  forward_translator :: "'x translator"
  backward_translator :: "'x translator"
  collate :: "sample list \<Rightarrow> int \<Rightarrow> int \<Rightarrow> 'x batch"
  bleu_score :: "int \<Rightarrow> int \<Rightarrow> int \<Rightarrow> (int list \<times> int list) list \<Rightarrow> real"
  forward_criterion :: "'x batch \<Rightarrow> real \<times> real \<times> logval"
  backward_criterion :: "'x batch \<Rightarrow> real \<times> real \<times> logval"

subsection \<open>The translation step\<close>

text \<open>
  Python's \<^verbatim>\<open>int(x)\<close> on a float: truncation toward zero of a finite value,
  \<^verbatim>\<open>OverflowError\<close> on an infinity, \<^verbatim>\<open>ValueError\<close> on a NaN.
\<close>

fun py_int :: "pyfloat \<Rightarrow> py_error + int" where
  "py_int (Finite x) = Inr (if 0 \<le> x then \<lfloor>x\<rfloor> else \<lceil>x\<rceil>)"
| "py_int Infinity = Inl OverflowError"
| "py_int NaN = Inl ValueError"

text \<open>fairseq's \<^verbatim>\<open>utils.strip_pad(tensor, pad)\<close> is \<^verbatim>\<open>tensor[tensor.ne(pad)]\<close>.\<close>

definition strip_pad :: "int list \<Rightarrow> int \<Rightarrow> int list" where
  "strip_pad tensor p = filter (\<lambda>t. t \<noteq> p) tensor"

text \<open>The keys kept in \<^verbatim>\<open>encoder_input\<close> (lines 37 to 46).\<close>

definition encoder_keys :: "criterion \<Rightarrow> string list" where
  "encoder_keys self =
     (if use_char_source self
      then [''src_tokens'', ''src_lengths'', ''char_inds'', ''word_lengths'']
      else [''src_tokens'', ''src_lengths''])"

definition encoder_input_of :: "criterion \<Rightarrow> 'x batch \<Rightarrow> 'x encoder_input" where
  "encoder_input_of self s =
     (src_tokens s, filter (\<lambda>kv. fst kv \<in> set (encoder_keys self)) (other_inputs s))"

text \<open>
  The \<^verbatim>\<open>maxlen\<close> argument of line 51, for a batch of padded length \<open>srclen\<close>:
  \<^verbatim>\<open>int(self.args.max_len_a * srclen + self.args.max_len_b)\<close>, computed in doubles.
\<close>

definition maxlen_of :: "float_ops \<Rightarrow> criterion \<Rightarrow> nat \<Rightarrow> py_error + int" where
  "maxlen_of fl self srclen =
     py_int (fadd fl (fmul fl (max_len_a (args self)) srclen) (max_len_b (args self)))"

text \<open>
  One pass of the \<^verbatim>\<open>for i, id in enumerate(s["id"])\<close> loop: the row is indexed first, then
  \<^verbatim>\<open>hypos[i]\<close>; either raises \<^verbatim>\<open>IndexError\<close> out of range.
\<close>

definition yield_item ::
  "tensor2d \<Rightarrow> int \<Rightarrow> hypo list list \<Rightarrow> nat \<times> nat \<Rightarrow> py_error + nat \<times> int list \<times> hypo list" where
  "yield_item input p hypos iid =
     (let i = fst iid in
      if i < length (rows input)
      then (let src = strip_pad (rows input ! i) p in
            if i < length hypos then Inr (snd iid, src, hypos ! i) else Inl IndexError)
      else Inl IndexError)"

text \<open>
  \<^verbatim>\<open>_generate_translation\<close>: the elements the generator yields, in order; an element
  \<open>Inl e\<close> stands for the generator raising \<open>e\<close> at that point (the consumer stops there).
  The arguments of \<^verbatim>\<open>translator.generate\<close> are evaluated before the call, so an
  \<^verbatim>\<open>int(...)\<close> that raises ends the generator before anything is decoded or yielded.
\<close>

definition generate_translation ::
  "float_ops \<Rightarrow> criterion \<Rightarrow> 'x translator \<Rightarrow> dictionary \<Rightarrow> 'x batch \<Rightarrow>
     (py_error + nat \<times> int list \<times> hypo list) list" where
  "generate_translation fl self translator tgt_dict s =
     (let srclen = size1 (src_tokens s);
          encoder_input = encoder_input_of self s
      in case maxlen_of fl self srclen of
           Inl e \<Rightarrow> [Inl e]
         | Inr maxlen \<Rightarrow>
             (let hypos = translator encoder_input (beam (args self)) maxlen
              in map (yield_item (src_tokens s) (pad tgt_dict) hypos) (enumerate 0 (ids s))))"

subsection \<open>The reward loop of \<^verbatim>\<open>forward\<close>\<close>

text \<open>
  The two lists the loop appends to. A list is mutated in place, so what was appended before
  an exception stays appended: a step returns the state it reached with the exception, if
  any.
\<close>

record loop_state =
  forward_samples :: "sample list"
  backward_samples :: "sample list"

text \<open>
  Lines 129 to 131: for every element of the backward generator, \<^verbatim>\<open>x_hypos[0]\<close> (which
  raises \<^verbatim>\<open>IndexError\<close> on an empty list) without its last token is added to the scorer
  against \<^verbatim>\<open>original_src\<close>. The result is the list of \<^verbatim>\<open>add\<close> calls, in order.
\<close>

fun scorer_adds ::
  "int list \<Rightarrow> (py_error + nat \<times> int list \<times> hypo list) list \<Rightarrow>
     (int list \<times> int list) list \<Rightarrow> py_error + (int list \<times> int list) list" where
  "scorer_adds original_src [] added = Inr added"
| "scorer_adds original_src (Inl e # rest) added = Inl e"
| "scorer_adds original_src (Inr (i, s, x_hypos) # rest) added =
     (case x_hypos of
        [] \<Rightarrow> Inl IndexError
      | x0 # _ \<Rightarrow> scorer_adds original_src rest (added @ [(original_src, butlast (tokens x0))]))"

text \<open>
  Lines 118 to 132 without the final division: the backward sample is collated, decoded
  with the backward model, and the reconstruction scored; the result is
  \<^verbatim>\<open>scorer.score(order=4)\<close>.
\<close>

definition reconstruction_score ::
  "criterion \<Rightarrow> 'x externals \<Rightarrow> dictionary \<Rightarrow> sample \<Rightarrow> int list \<Rightarrow> py_error + real" where
  "reconstruction_score self ext src_dict backward_sample original_src =
     (let bwd_model_input = collate ext [backward_sample] (pad src_dict) (eos src_dict);
          reconstructed_source =
            generate_translation (float_arith ext) self (backward_translator ext) src_dict
              bwd_model_input
      in case scorer_adds original_src reconstructed_source [] of
           Inl e \<Rightarrow> Inl e
         | Inr added \<Rightarrow>
             Inr (bleu_score ext (pad src_dict) (eos src_dict) (unk src_dict) added))"

text \<open>
  The body of the loop (lines 97 to 150) on one element of the forward generator.
  \<^verbatim>\<open>hypos[0]\<close>, \<^verbatim>\<open>original_src[-1]\<close> and \<^verbatim>\<open>hypos[0]["tokens"][-1]\<close> raise \<^verbatim>\<open>IndexError\<close> on an
  empty sequence; a slice \<^verbatim>\<open>[:-1]\<close> of an empty sequence is empty. \<open>forward_reward\<close> is the
  \<^verbatim>\<open>lm_score\<close> of line 92.
\<close>

definition reward_step ::
  "criterion \<Rightarrow> 'x externals \<Rightarrow> dictionary \<Rightarrow> dictionary \<Rightarrow> real \<Rightarrow> loop_state \<Rightarrow>
     (py_error + nat \<times> int list \<times> hypo list) \<Rightarrow> loop_state \<times> py_error option" where
  "reward_step self ext tgt_dict src_dict forward_reward st item =
     (case item of
        Inl e \<Rightarrow> (st, Some e)
      | Inr (i, src, hypos) \<Rightarrow>
     (case hypos of
        [] \<Rightarrow> (st, Some IndexError)
      | h0 # _ \<Rightarrow>
     (if src = [] then (st, Some IndexError)
      else
       (let eos_index = eos tgt_dict;
            original_src = (if last src \<noteq> eos_index then src @ [eos_index] else src);
            bt_src = (if remove_eos_at_src self then butlast (tokens h0) else tokens h0);
            backward_sample =
              \<lparr>id_field = i, source = bt_src, target = original_src,
               weights = 1 - alpha self\<rparr>;
            st1 = st\<lparr>backward_samples := backward_samples st @ [backward_sample]\<rparr>
        in case reconstruction_score self ext src_dict backward_sample original_src of
             Inl e \<Rightarrow> (st1, Some e)
           | Inr sc \<Rightarrow>
               (let backward_reward = sc / 100;
                    total_reward =
                      alpha self * forward_reward + (1 - alpha self) * backward_reward
                in if tokens h0 = [] then (st1, Some IndexError)
                   else if last (tokens h0) = eos_index
                   then (st1\<lparr>forward_samples := forward_samples st1 @
                               [\<lparr>id_field = i, source = src, target = tokens h0,
                                 weights = total_reward\<rparr>]\<rparr>, None)
                   else (st1, Some AssertionError))))))"

text \<open>The \<^verbatim>\<open>for\<close> loop over the generator: it stops at the first exception.\<close>

fun reward_loop ::
  "criterion \<Rightarrow> 'x externals \<Rightarrow> dictionary \<Rightarrow> dictionary \<Rightarrow> real \<Rightarrow> loop_state \<Rightarrow>
     (py_error + nat \<times> int list \<times> hypo list) list \<Rightarrow> loop_state \<times> py_error option" where
  "reward_loop self ext tgt_dict src_dict forward_reward st [] = (st, None)"
| "reward_loop self ext tgt_dict src_dict forward_reward st (item # items) =
     (case reward_step self ext tgt_dict src_dict forward_reward st item of
        (st', Some e) \<Rightarrow> (st', Some e)
      | (st', None) \<Rightarrow> reward_loop self ext tgt_dict src_dict forward_reward st' items)"

text \<open>The placeholder of line 92.\<close>

definition lm_score :: real where
  "lm_score = 0.5"

text \<open>
  Lines 85 to 150 of \<^verbatim>\<open>forward\<close>: the forward decode and the reward loop, from empty
  lists.
\<close>

definition build_samples ::
  "criterion \<Rightarrow> 'x externals \<Rightarrow> 'x batch \<Rightarrow> dictionary \<Rightarrow> dictionary \<Rightarrow>
     loop_state \<times> py_error option" where
  "build_samples self ext smp tgt_dict src_dict =
     (let nbest_translations =
            generate_translation (float_arith ext) self (forward_translator ext) tgt_dict smp;
          forward_reward = lm_score
      in reward_loop self ext tgt_dict src_dict forward_reward
           \<lparr>forward_samples = [], backward_samples = []\<rparr> nbest_translations)"

text \<open>
  \<^verbatim>\<open>forward\<close>. After the loop the two lists are collated and handed to the task's
  criterion for each model; the result is the summed loss, the summed sample size and the
  logging record \<^verbatim>\<open>{"primal": ..., "dual": ...}\<close>. The calls \<^verbatim>\<open>model.train()\<close> and
  \<^verbatim>\<open>optimizer.backward(loss)\<close> act on the models only and return nothing.
\<close>

definition forward ::
  "criterion \<Rightarrow> 'x externals \<Rightarrow> 'x batch \<Rightarrow> dictionary \<Rightarrow> dictionary \<Rightarrow>
     py_error + real \<times> real \<times> logrec" where
  "forward self ext smp tgt_dict src_dict =
     (case build_samples self ext smp tgt_dict src_dict of
        (st, Some e) \<Rightarrow> Inl e
      | (st, None) \<Rightarrow>
          (case forward_criterion ext
                  (collate ext (forward_samples st) (pad tgt_dict) (eos tgt_dict)) of
             (forward_loss, sample_size, logging_output) \<Rightarrow>
          (case backward_criterion ext
                  (collate ext (backward_samples st) (pad src_dict) (eos src_dict)) of
             (backward_loss, sample_size', logging_output') \<Rightarrow>
               Inr (0 + forward_loss + backward_loss,
                    0 + sample_size + sample_size',
                    [(''primal'', logging_output), (''dual'', logging_output')]))))"

subsection \<open>A small concrete instance\<close>

text \<open>
  A vocabulary with fairseq's default special symbols, a configuration, and simple stand-ins
  for the external capabilities, used to run the definitions on concrete batches.
\<close>

definition demo_dict :: dictionary where
  "demo_dict = \<lparr>pad = 1, eos = 2, unk = 3\<rparr>"

definition demo_args :: cli_args where
  "demo_args =
     \<lparr>reward_alpha = 1 / 4, append_eos_to_source = False, beam = 2,
      max_len_a = 3 / 4, max_len_b = 1 / 2\<rparr>"

definition demo_self :: criterion where
  "demo_self = init demo_args False"

text \<open>
  Exact arithmetic: on the operands of the batches below (\<open>3/4\<close> times 1, 2 or 3, plus
  \<open>1/2\<close>) every exact result is a double, so double arithmetic returns it unchanged.
\<close>

definition demo_float :: float_ops where
  "demo_float =
     \<lparr>fmul = (\<lambda>a n. Finite (a * real n)),
      fadd = (\<lambda>p b. case p of Finite x \<Rightarrow> Finite (x + b) | Infinity \<Rightarrow> Infinity | NaN \<Rightarrow> NaN)\<rparr>"

text \<open>A decoder returning two hypotheses for every row; only the first ends with eos.\<close>

definition demo_forward_translator :: "unit translator" where
  "demo_forward_translator enc b m =
     map (\<lambda>r. [\<lparr>tokens = [7, 2], score = 0\<rparr>, \<lparr>tokens = [7, 9], score = - 1\<rparr>]) (rows (fst enc))"

text \<open>A decoder whose best hypothesis does not end with eos.\<close>

definition demo_bad_translator :: "unit translator" where
  "demo_bad_translator enc b m =
     map (\<lambda>r. [\<lparr>tokens = [7, 9], score = 0\<rparr>]) (rows (fst enc))"

definition demo_backward_translator :: "unit translator" where
  "demo_backward_translator enc b m =
     map (\<lambda>r. [\<lparr>tokens = [5, 6, 2], score = 0\<rparr>]) (rows (fst enc))"

text \<open>Collation pads every source on the right to the longest one.\<close>

definition demo_collate :: "sample list \<Rightarrow> int \<Rightarrow> int \<Rightarrow> unit batch" where
  "demo_collate samples p e =
     (let n = fold (\<lambda>s m. max (length (source s)) m) samples 0
      in \<lparr>ids = map id_field samples,
          src_tokens =
            \<lparr>size1 = n,
             rows = map (\<lambda>s. source s @ replicate (n - length (source s)) p) samples\<rparr>,
          other_inputs = []\<rparr>)"

text \<open>A scorer that reports 100 when every prediction is its reference without the last token.\<close>

definition demo_bleu :: "int \<Rightarrow> int \<Rightarrow> int \<Rightarrow> (int list \<times> int list) list \<Rightarrow> real" where
  "demo_bleu p e u added =
     (if list_all (\<lambda>rh. butlast (fst rh) = snd rh) added then 100 else 25)"

definition demo_criterion :: "unit batch \<Rightarrow> real \<times> real \<times> logval" where
  "demo_criterion b =
     (3, real (length (ids b)),
      Dict [(''loss'', Num 3), (''sample_size'', Num (real (length (ids b))))])"

definition demo_ext :: "unit externals" where
  "demo_ext =
     \<lparr>float_arith = demo_float,
      forward_translator = demo_forward_translator,
      backward_translator = demo_backward_translator,
      collate = demo_collate,
      bleu_score = demo_bleu,
      forward_criterion = demo_criterion,
      backward_criterion = demo_criterion\<rparr>"

definition demo_bad_ext :: "unit externals" where
  "demo_bad_ext = demo_ext\<lparr>forward_translator := demo_bad_translator\<rparr>"

text \<open>A batch of one example, \<open>[5, 6]\<close> padded to length 3.\<close>

definition demo_batch :: "unit batch" where
  "demo_batch =
     \<lparr>ids = [0],
      src_tokens = \<lparr>size1 = 3, rows = [[5, 6, 1]]\<rparr>,
      other_inputs = []\<rparr>"

text \<open>A batch of one example whose source already ends with two eos tokens.\<close>

definition demo_eos_batch :: "unit batch" where
  "demo_eos_batch =
     \<lparr>ids = [0],
      src_tokens = \<lparr>size1 = 3, rows = [[2, 2, 1]]\<rparr>,
      other_inputs = []\<rparr>"

text \<open>A batch of two examples; the second source already ends with eos.\<close>

definition demo_pair_batch :: "unit batch" where
  "demo_pair_batch =
     \<lparr>ids = [0, 1],
      src_tokens = \<lparr>size1 = 3, rows = [[5, 6, 1], [8, 2, 1]]\<rparr>,
      other_inputs = []\<rparr>"

text \<open>The logging records of two workers, and one of an empty batch.\<close>

definition demo_worker1 :: logrec where
  "demo_worker1 =
     [(''loss'', Num 20), (''ntokens'', Num 10), (''nsentences'', Num 2),
      (''sample_size'', Num 8)]"

definition demo_worker2 :: logrec where
  "demo_worker2 =
     [(''loss'', Num 30), (''ntokens'', Num 12), (''nsentences'', Num 3),
      (''sample_size'', Num 12)]"

definition demo_empty_worker :: logrec where
  "demo_empty_worker =
     [(''loss'', Num 0), (''ntokens'', Num 0), (''nsentences'', Num 0),
      (''sample_size'', Num 0)]"

section \<open>Properties\<close>

subsection \<open>Unfolding the definitions\<close>

lemmas demo_defs =
  demo_dict_def demo_args_def demo_self_def init_def demo_float_def
  demo_forward_translator_def
  demo_backward_translator_def demo_collate_def demo_bleu_def
  demo_criterion_def demo_ext_def demo_batch_def

lemmas step_defs =
  build_samples_def generate_translation_def yield_item_def strip_pad_def
  encoder_input_of_def encoder_keys_def maxlen_of_def reward_step_def
  reconstruction_score_def lm_score_def Let_def

subsection \<open>Aggregation reads the first record only\<close>

lemma get_logging_output_first:
  "get_logging_output (l0 # rest) key = get_logging_output [l0] key"
  by simp

lemma aggregate_first:
  "aggregate_logging_outputs (l0 # rest) = aggregate_logging_outputs [l0]"
  by (simp only: aggregate_logging_outputs_def get_logging_output_first[of l0 rest])

lemma py_truediv_Inr:
  "py_truediv a b = Inr q \<Longrightarrow> \<exists>x y. a = Num x \<and> b = Num y \<and> y \<noteq> 0 \<and> q = x / y"
  by (cases a; cases b) (auto split: if_splits)

subsection \<open>One step of the reward loop\<close>

lemma reward_step_stops:
  "reward_step self ext tgt_dict src_dict fr st (Inl e) = (st, Some e)"
  "reward_step self ext tgt_dict src_dict fr st (Inr (i, src, [])) = (st, Some IndexError)"
  "reward_step self ext tgt_dict src_dict fr st (Inr (i, [], h0 # hs)) = (st, Some IndexError)"
  by (simp_all add: reward_step_def)

lemma reward_step_runs:
  fixes self :: criterion and tgt_dict :: dictionary
  defines "osrc src \<equiv> (if last src \<noteq> eos tgt_dict then src @ [eos tgt_dict] else src)"
  defines "bsmp i src h0 \<equiv>
     \<lparr>id_field = i,
      source = (if remove_eos_at_src self then butlast (tokens h0) else tokens h0),
      target = osrc src, weights = 1 - alpha self\<rparr>"
  assumes "src \<noteq> []"
  shows "reward_step self ext tgt_dict src_dict fr st (Inr (i, src, h0 # hs)) =
     (case reconstruction_score self ext src_dict (bsmp i src h0) (osrc src) of
        Inl e \<Rightarrow> (st\<lparr>backward_samples := backward_samples st @ [bsmp i src h0]\<rparr>, Some e)
      | Inr sc \<Rightarrow>
          if tokens h0 = []
          then (st\<lparr>backward_samples := backward_samples st @ [bsmp i src h0]\<rparr>, Some IndexError)
          else if last (tokens h0) = eos tgt_dict
          then (st\<lparr>backward_samples := backward_samples st @ [bsmp i src h0],
                   forward_samples := forward_samples st @
                     [\<lparr>id_field = i, source = src, target = tokens h0,
                       weights = alpha self * fr + (1 - alpha self) * (sc / 100)\<rparr>]\<rparr>, None)
          else (st\<lparr>backward_samples := backward_samples st @ [bsmp i src h0]\<rparr>,
                Some AssertionError))"
  using assms(3) unfolding reward_step_def Let_def osrc_def bsmp_def
  by (simp split: sum.splits)

lemma reward_step_None:
  assumes "reward_step self ext tgt_dict src_dict fr st item = (st', None)"
  obtains i src h0 hs sc where
    "item = Inr (i, src, h0 # hs)" "src \<noteq> []" "tokens h0 \<noteq> []"
    "last (tokens h0) = eos tgt_dict"
    "reconstruction_score self ext src_dict
       \<lparr>id_field = i,
        source = (if remove_eos_at_src self then butlast (tokens h0) else tokens h0),
        target = (if last src \<noteq> eos tgt_dict then src @ [eos tgt_dict] else src),
        weights = 1 - alpha self\<rparr>
       (if last src \<noteq> eos tgt_dict then src @ [eos tgt_dict] else src) = Inr sc"
    "backward_samples st' = backward_samples st @
       [\<lparr>id_field = i,
         source = (if remove_eos_at_src self then butlast (tokens h0) else tokens h0),
         target = (if last src \<noteq> eos tgt_dict then src @ [eos tgt_dict] else src),
         weights = 1 - alpha self\<rparr>]"
    "forward_samples st' = forward_samples st @
       [\<lparr>id_field = i, source = src, target = tokens h0,
         weights = alpha self * fr + (1 - alpha self) * (sc / 100)\<rparr>]"
proof (cases item)
  case (Inl e)
  with assms show ?thesis by (simp add: reward_step_stops)
next
  case (Inr t)
  obtain i src hypos where t: "t = (i, src, hypos)" by (cases t)
  show ?thesis
  proof (cases hypos)
    case Nil
    with assms Inr t show ?thesis by (simp add: reward_step_stops)
  next
    case (Cons h0 hs)
    show ?thesis
    proof (cases "src = []")
      case True
      with assms Inr t Cons show ?thesis by (simp add: reward_step_stops)
    next
      case False
      note run = reward_step_runs[OF False, of self ext tgt_dict src_dict fr st i h0 hs]
      from assms Inr t Cons have eq:
        "reward_step self ext tgt_dict src_dict fr st (Inr (i, src, h0 # hs)) = (st', None)"
        by simp
      show ?thesis
      proof (cases "reconstruction_score self ext src_dict
          \<lparr>id_field = i,
           source = (if remove_eos_at_src self then butlast (tokens h0) else tokens h0),
           target = (if last src \<noteq> eos tgt_dict then src @ [eos tgt_dict] else src),
           weights = 1 - alpha self\<rparr>
          (if last src \<noteq> eos tgt_dict then src @ [eos tgt_dict] else src)")
        case (Inl e)
        with eq run show ?thesis by simp
      next
        case sc: (Inr sc)
        from eq run sc have ne: "tokens h0 \<noteq> []" and l: "last (tokens h0) = eos tgt_dict"
          by (auto split: if_splits)
        from eq run sc ne l have
          "st' = st\<lparr>backward_samples := backward_samples st @
             [\<lparr>id_field = i,
               source = (if remove_eos_at_src self then butlast (tokens h0) else tokens h0),
               target = (if last src \<noteq> eos tgt_dict then src @ [eos tgt_dict] else src),
               weights = 1 - alpha self\<rparr>],
             forward_samples := forward_samples st @
               [\<lparr>id_field = i, source = src, target = tokens h0,
                 weights = alpha self * fr + (1 - alpha self) * (sc / 100)\<rparr>]\<rparr>"
          by simp
        then show ?thesis
          using that[of i src h0 hs sc] Inr t Cons False ne l sc by simp
      qed
    qed
  qed
qed

lemma reward_step_backward:
  "backward_samples (fst (reward_step self ext tgt_dict src_dict fr st (Inr (i, src, h0 # hs)))) =
     (if src = [] then backward_samples st
      else backward_samples st @
        [\<lparr>id_field = i,
          source = (if remove_eos_at_src self then butlast (tokens h0) else tokens h0),
          target = (if last src \<noteq> eos tgt_dict then src @ [eos tgt_dict] else src),
          weights = 1 - alpha self\<rparr>])"
proof (cases "src = []")
  case True
  then show ?thesis by (simp add: reward_step_stops)
next
  case False
  show ?thesis
    using False by (simp add: reward_step_runs[OF False] split: sum.splits)
qed

lemma reward_step_backward_weights:
  "\<exists>n. map weights (backward_samples (fst (reward_step self ext tgt_dict src_dict fr st item))) =
     map weights (backward_samples st) @ replicate n (1 - alpha self)"
proof (cases item)
  case (Inl e)
  then show ?thesis by (auto simp: reward_step_stops intro: exI[of _ 0])
next
  case (Inr t)
  obtain i src hypos where t: "t = (i, src, hypos)" by (cases t)
  show ?thesis
  proof (cases hypos)
    case Nil
    with Inr t show ?thesis by (auto simp: reward_step_stops intro: exI[of _ 0])
  next
    case (Cons h0 hs)
    show ?thesis
    proof (cases "src = []")
      case True
      with Inr t Cons show ?thesis by (auto simp: reward_step_backward intro: exI[of _ 0])
    next
      case False
      with Inr t Cons show ?thesis by (auto simp: reward_step_backward intro: exI[of _ 1])
    qed
  qed
qed

lemma reward_loop_backward_weights:
  "\<exists>n. map weights (backward_samples (fst (reward_loop self ext tgt_dict src_dict fr st items))) =
     map weights (backward_samples st) @ replicate n (1 - alpha self)"
proof (induction items arbitrary: st)
  case Nil
  show ?case by (auto intro: exI[of _ 0])
next
  case (Cons item items)
  obtain st1 r where step: "reward_step self ext tgt_dict src_dict fr st item = (st1, r)"
    by (cases "reward_step self ext tgt_dict src_dict fr st item")
  from reward_step_backward_weights[of self ext tgt_dict src_dict fr st item] step
  obtain n where n: "map weights (backward_samples st1) =
     map weights (backward_samples st) @ replicate n (1 - alpha self)" by auto
  show ?case
  proof (cases r)
    case None
    from Cons.IH[of st1] obtain m where
      "map weights (backward_samples (fst (reward_loop self ext tgt_dict src_dict fr st1 items))) =
         map weights (backward_samples st1) @ replicate m (1 - alpha self)" by blast
    with n step None show ?thesis
      by (auto simp: replicate_add[symmetric] intro!: exI[of _ "n + m"])
  next
    case (Some e)
    with n step show ?thesis by auto
  qed
qed

lemma reward_loop_None:
  assumes "reward_loop self ext tgt_dict src_dict fr st items = (st', None)"
  shows "\<exists>triples. items = map Inr triples \<and>
           map id_field (forward_samples st') = map id_field (forward_samples st) @ map fst triples \<and>
           map id_field (backward_samples st') = map id_field (backward_samples st) @ map fst triples \<and>
           list_all (\<lambda>t. snd (snd t) \<noteq> [] \<and> tokens (hd (snd (snd t))) \<noteq> [] \<and>
                        last (tokens (hd (snd (snd t)))) = eos tgt_dict) triples"
  using assms
proof (induction items arbitrary: st)
  case Nil
  then show ?case by auto
next
  case (Cons item items)
  obtain st1 r where step: "reward_step self ext tgt_dict src_dict fr st item = (st1, r)"
    by (cases "reward_step self ext tgt_dict src_dict fr st item")
  with Cons.prems have r: "r = None" and rest: "reward_loop self ext tgt_dict src_dict fr st1 items = (st', None)"
    by (auto split: option.splits)
  from reward_step_None[OF step[unfolded r]] obtain i src h0 hs where
    it: "item = Inr (i, src, h0 # hs)" "tokens h0 \<noteq> []" "last (tokens h0) = eos tgt_dict"
    and b: "map id_field (backward_samples st1) = map id_field (backward_samples st) @ [i]"
    and f: "map id_field (forward_samples st1) = map id_field (forward_samples st) @ [i]"
    by (metis (no_types, lifting) list.simps(8,9) map_append sample.select_convs(1))
  from Cons.IH[OF rest] obtain triples where
    tr: "items = map Inr triples"
      "map id_field (forward_samples st') = map id_field (forward_samples st1) @ map fst triples"
      "map id_field (backward_samples st') = map id_field (backward_samples st1) @ map fst triples"
      "list_all (\<lambda>t. snd (snd t) \<noteq> [] \<and> tokens (hd (snd (snd t))) \<noteq> [] \<and>
                        last (tokens (hd (snd (snd t)))) = eos tgt_dict) triples"
    by blast
  show ?case
    by (rule exI[of _ "(i, src, h0 # hs) # triples"]) (use it b f tr in simp)
qed

lemma yield_item_id: "yield_item input p hypos iid = Inr t \<Longrightarrow> fst t = snd iid"
  by (auto simp: yield_item_def Let_def split: if_splits)

lemma generate_translation_ids:
  assumes "generate_translation fl self tr d s = map Inr triples"
  shows "map fst triples = ids s"
proof (cases "maxlen_of fl self (size1 (src_tokens s))")
  case (Inl e)
  with assms have "[Inl e] = map Inr triples"
    by (simp add: generate_translation_def Let_def)
  then show ?thesis by (cases triples) simp_all
next
  case (Inr m)
  let ?f = "yield_item (src_tokens s) (pad d)
              (tr (encoder_input_of self s) (beam (args self)) m)"
  have eq: "map ?f (enumerate 0 (ids s)) = map Inr triples"
    using assms Inr by (simp add: generate_translation_def Let_def)
  then have len: "length triples = length (ids s)"
    by (metis length_enumerate length_map)
  show ?thesis
  proof (rule nth_equalityI)
    show "length (map fst triples) = length (ids s)" using len by simp
  next
    fix k assume "k < length (map fst triples)"
    then have k: "k < length (ids s)" using len by simp
    from eq have "map ?f (enumerate 0 (ids s)) ! k = map Inr triples ! k" by simp
    with k len have "?f (k, ids s ! k) = Inr (triples ! k)"
      by (simp add: nth_enumerate_eq)
    from yield_item_id[OF this] k len show "map fst triples ! k = ids s ! k" by simp
  qed
qed

subsection \<open>Arithmetic of the length bound and of the reward\<close>

lemma py_int_Finite_bounds:
  "\<exists>m. py_int (Finite x) = Inr m \<and> \<bar>real_of_int m\<bar> \<le> \<bar>x\<bar> \<and> \<bar>x - real_of_int m\<bar> < 1"
proof (cases "0 \<le> x")
  case True
  have f: "real_of_int \<lfloor>x\<rfloor> \<le> x" "x < real_of_int \<lfloor>x\<rfloor> + 1" by linarith+
  have "0 \<le> real_of_int \<lfloor>x\<rfloor>" using True by simp
  with f True have "\<bar>real_of_int \<lfloor>x\<rfloor>\<bar> \<le> \<bar>x\<bar>" "\<bar>x - real_of_int \<lfloor>x\<rfloor>\<bar> < 1"
    by linarith+
  with True show ?thesis by simp
next
  case False
  have c: "x \<le> real_of_int \<lceil>x\<rceil>" "real_of_int \<lceil>x\<rceil> < x + 1" by linarith+
  have "\<lceil>x\<rceil> \<le> 0" using False by (simp add: ceiling_le_zero)
  then have "real_of_int \<lceil>x\<rceil> \<le> 0" by simp
  with c False have "\<bar>real_of_int \<lceil>x\<rceil>\<bar> \<le> \<bar>x\<bar>" "\<bar>x - real_of_int \<lceil>x\<rceil>\<bar> < 1"
    by linarith+
  with False show ?thesis by simp
qed

lemma truncation_unique:
  fixes x :: real and k m :: int
  assumes "\<bar>real_of_int k\<bar> \<le> \<bar>x\<bar>" "\<bar>x - real_of_int k\<bar> < 1"
    and "\<bar>real_of_int m\<bar> \<le> \<bar>x\<bar>" "\<bar>x - real_of_int m\<bar> < 1"
  shows "k = m"
proof (rule ccontr)
  assume "k \<noteq> m"
  then have "k \<le> m - 1 \<or> m \<le> k - 1" by linarith
  then have "real_of_int k \<le> real_of_int m - 1 \<or> real_of_int m \<le> real_of_int k - 1"
    by (metis of_int_1 of_int_diff of_int_le_iff)
  with assms show False by linarith
qed

lemma convex_bounds:
  fixes a r :: real
  assumes "0 \<le> a" "a \<le> 1" "0 \<le> r" "r \<le> 100"
  shows "0 \<le> a * 0.5 + (1 - a) * (r / 100)" "a * 0.5 + (1 - a) * (r / 100) \<le> 1"
proof -
  have nn: "0 \<le> (1 - a) * (r / 100)" using assms by simp
  have "(1 - a) * (r / 100) \<le> (1 - a) * 1"
    using assms by (intro mult_left_mono) simp_all
  then have up: "(1 - a) * (r / 100) \<le> 1 - a" by simp
  show "0 \<le> a * 0.5 + (1 - a) * (r / 100)" using nn assms by simp
  show "a * 0.5 + (1 - a) * (r / 100) \<le> 1" using up assms by simp
qed

subsection \<open>The whole step, and the concrete instance\<close>

lemma forward_Inr_build:
  assumes "forward self ext smp tgt_dict src_dict = Inr r"
  shows "\<exists>st. build_samples self ext smp tgt_dict src_dict = (st, None)"
  using assms unfolding forward_def
  by (cases "build_samples self ext smp tgt_dict src_dict")
     (auto split: option.splits prod.splits)

lemma demo_generate:
  "generate_translation (float_arith demo_ext) demo_self (forward_translator demo_ext) demo_dict
     demo_batch =
     [Inr (0, [5, 6], [\<lparr>tokens = [7, 2], score = 0\<rparr>, \<lparr>tokens = [7, 9], score = - 1\<rparr>])]"
  by (simp add: demo_defs step_defs)

lemma demo_forward:
  "forward demo_self demo_ext demo_batch demo_dict demo_dict =
     Inr (6, 2, [(''primal'', Dict [(''loss'', Num 3), (''sample_size'', Num 1)]),
                 (''dual'', Dict [(''loss'', Num 3), (''sample_size'', Num 1)])])"
  by (simp add: forward_def demo_defs step_defs)

section \<open>The claims\<close>

subsection \<open>Logging aggregation\<close>

text \<open>
  C1. The claim: for every non-empty collection of per-worker logging records, the
  aggregated \<^verbatim>\<open>loss\<close>, \<^verbatim>\<open>ntokens\<close>, \<^verbatim>\<open>nsentences\<close> and \<^verbatim>\<open>sample_size\<close> are the sums
  over all workers' records. The code reads \<^verbatim>\<open>logging_outputs[0]\<close> only: with the records
  of two workers (\<^verbatim>\<open>ntokens\<close> 10 and 12, \<^verbatim>\<open>sample_size\<close> 8 and 12, \<^verbatim>\<open>loss\<close> 20 and 30,
  \<^verbatim>\<open>nsentences\<close> 2 and 3) the result carries the first worker's values 10, 8, 2 and
  \<^verbatim>\<open>20 / 8 / ln 2\<close>, not the sums 22, 20, 5 and \<^verbatim>\<open>50 / 20 / ln 2\<close>.
\<close>

theorem aggregate_ignores_other_workers:
  "aggregate_logging_outputs [demo_worker1, demo_worker2] =
     Inr [(''loss'', Num (20 / 8 / ln 2)), (''ntokens'', Num 10), (''nsentences'', Num 2),
          (''sample_size'', Num 8), (''nll_loss'', Num (20 / 10 / ln 2))]"
  by (simp add: aggregate_logging_outputs_def demo_worker1_def demo_worker2_def)

text \<open>
  C5. Whenever the aggregation returns a record: the headline \<^verbatim>\<open>loss\<close> is
  \<^verbatim>\<open>loss_sum / sample_size / ln 2\<close>; the key \<^verbatim>\<open>nll_loss\<close> is present exactly when
  \<^verbatim>\<open>sample_size\<close> differs from \<^verbatim>\<open>ntokens\<close>; and when present it is
  \<^verbatim>\<open>loss_sum / ntokens / ln 2\<close>.
\<close>

theorem aggregate_nll_loss_iff:
  assumes agg: "aggregate_logging_outputs los = Inr out"
    and l: "get_logging_output los ''loss'' = Inr loss_sum"
    and n: "get_logging_output los ''ntokens'' = Inr ntokens"
    and s: "get_logging_output los ''sample_size'' = Inr sample_size"
  shows "\<exists>lv sv. loss_sum = Num lv \<and> sample_size = Num sv \<and> sv \<noteq> 0 \<and>
           map_of out ''loss'' = Some (Num (lv / sv / ln 2)) \<and>
           ((''nll_loss'' \<in> fst ` set out) = (sample_size \<noteq> ntokens)) \<and>
           (sample_size \<noteq> ntokens \<longrightarrow>
              (\<exists>nv. ntokens = Num nv \<and> nv \<noteq> 0 \<and>
                 map_of out ''nll_loss'' = Some (Num (lv / nv / ln 2))))"
  using agg l n s unfolding aggregate_logging_outputs_def
  by (auto split: sum.splits if_splits dest!: py_truediv_Inr simp: Let_def)

text \<open>
  The example of the specification: \<^verbatim>\<open>sample_size = 8\<close>, \<^verbatim>\<open>ntokens = 10\<close>, \<^verbatim>\<open>loss = 20\<close>.
\<close>

theorem aggregate_nll_loss_iff_witness:
  "aggregate_logging_outputs [demo_worker1] =
     Inr [(''loss'', Num (20 / 8 / ln 2)), (''ntokens'', Num 10), (''nsentences'', Num 2),
          (''sample_size'', Num 8), (''nll_loss'', Num (20 / 10 / ln 2))] \<and>
   get_logging_output [demo_worker1] ''loss'' = Inr (Num 20) \<and>
   get_logging_output [demo_worker1] ''ntokens'' = Inr (Num 10) \<and>
   get_logging_output [demo_worker1] ''sample_size'' = Inr (Num 8) \<and>
   Num 8 \<noteq> Num 10 \<and>
   map_of [(''loss'', Num (20 / 8 / ln 2)), (''ntokens'', Num 10), (''nsentences'', Num 2),
          (''sample_size'', Num 8), (''nll_loss'', Num (20 / 10 / ln 2))] ''nll_loss''
     = Some (Num (20 / 10 / ln 2))"
proof -
  have a: "aggregate_logging_outputs [demo_worker1] =
     Inr [(''loss'', Num (20 / 8 / ln 2)), (''ntokens'', Num 10), (''nsentences'', Num 2),
          (''sample_size'', Num 8), (''nll_loss'', Num (20 / 10 / ln 2))]"
    by (simp add: aggregate_logging_outputs_def demo_worker1_def)
  have l: "get_logging_output [demo_worker1] ''loss'' = Inr (Num 20)"
    by (simp add: demo_worker1_def)
  have n: "get_logging_output [demo_worker1] ''ntokens'' = Inr (Num 10)"
    by (simp add: demo_worker1_def)
  have s: "get_logging_output [demo_worker1] ''sample_size'' = Inr (Num 8)"
    by (simp add: demo_worker1_def)
  from aggregate_nll_loss_iff[OF a l n s] a l n s show ?thesis by simp
qed

text \<open>
  C6. When the aggregated \<^verbatim>\<open>sample_size\<close> is zero the aggregation does not return: it
  always ends in an exception, and that exception is \<^verbatim>\<open>ZeroDivisionError\<close> whenever the
  other lookups yield values and the loss is a number. No branch of the function guards the
  division.
\<close>

theorem aggregate_zero_sample_size:
  assumes s: "get_logging_output los ''sample_size'' = Inr (Num 0)"
  shows "(\<exists>e. aggregate_logging_outputs los = Inl e) \<and>
         (\<forall>lv n m. get_logging_output los ''loss'' = Inr (Num lv) \<and>
                  get_logging_output los ''ntokens'' = Inr n \<and>
                  get_logging_output los ''nsentences'' = Inr m \<longrightarrow>
                  aggregate_logging_outputs los = Inl ZeroDivisionError)"
  using s unfolding aggregate_logging_outputs_def
  by (auto split: sum.splits if_splits dest!: py_truediv_Inr simp: Let_def)

theorem aggregate_zero_sample_size_witness:
  "get_logging_output [demo_empty_worker] ''sample_size'' = Inr (Num 0) \<and>
   get_logging_output [demo_empty_worker] ''loss'' = Inr (Num 0) \<and>
   get_logging_output [demo_empty_worker] ''ntokens'' = Inr (Num 0) \<and>
   get_logging_output [demo_empty_worker] ''nsentences'' = Inr (Num 0) \<and>
   aggregate_logging_outputs [demo_empty_worker] = Inl ZeroDivisionError"
proof -
  have s: "get_logging_output [demo_empty_worker] ''sample_size'' = Inr (Num 0)"
    by (simp add: demo_empty_worker_def)
  have l: "get_logging_output [demo_empty_worker] ''loss'' = Inr (Num 0)"
    by (simp add: demo_empty_worker_def)
  have n: "get_logging_output [demo_empty_worker] ''ntokens'' = Inr (Num 0)"
    by (simp add: demo_empty_worker_def)
  have m: "get_logging_output [demo_empty_worker] ''nsentences'' = Inr (Num 0)"
    by (simp add: demo_empty_worker_def)
  from aggregate_zero_sample_size[OF s] l n m
  have "aggregate_logging_outputs [demo_empty_worker] = Inl ZeroDivisionError" by blast
  with s l n m show ?thesis by simp
qed

subsection \<open>The translation step\<close>

text \<open>
  C3, as stated, at a concrete configuration: with \<^verbatim>\<open>max_len_a = 3/4\<close>, \<^verbatim>\<open>max_len_b = 1/2\<close>
  and a padded source length of 3 the value is \<open>2.75\<close>; the code passes \<open>2\<close>, while the
  nearest integer is \<open>3\<close>.
\<close>

theorem maxlen_not_round_counterexample:
  "maxlen_of demo_float demo_self (size1 (src_tokens demo_batch)) = Inr 2 \<and>
   round (max_len_a (args demo_self) * real (size1 (src_tokens demo_batch)) +
          max_len_b (args demo_self)) = 3 \<and>
   \<bar>max_len_a (args demo_self) * real (size1 (src_tokens demo_batch)) +
      max_len_b (args demo_self) - 3\<bar> <
   \<bar>max_len_a (args demo_self) * real (size1 (src_tokens demo_batch)) +
      max_len_b (args demo_self) - 2\<bar>"
  by (simp add: demo_defs maxlen_of_def round_def)

text \<open>
  C3, amended. The maximum output length passed to the decoder is
  \<^verbatim>\<open>int(max_len_a * srclen + max_len_b)\<close>, where \<^verbatim>\<open>srclen\<close> is the padded source length of
  the batch and \<^verbatim>\<open>int\<close> truncates the floating-point value of the expression toward zero:
  the result is the one integer that is no larger in magnitude than that value and less than
  1 away from it.
\<close>

theorem maxlen_truncates:
  "generate_translation fl self translator tgt_dict s =
     (case py_int (fadd fl (fmul fl (max_len_a (args self)) (size1 (src_tokens s)))
                     (max_len_b (args self))) of
        Inl e \<Rightarrow> [Inl e]
      | Inr m \<Rightarrow>
          map (yield_item (src_tokens s) (pad tgt_dict)
                 (translator (encoder_input_of self s) (beam (args self)) m))
              (enumerate 0 (ids s))) \<and>
   (\<exists>m. py_int (Finite x) = Inr m \<and>
        \<bar>real_of_int m\<bar> \<le> \<bar>x\<bar> \<and> \<bar>x - real_of_int m\<bar> < 1 \<and>
        (\<forall>k. \<bar>real_of_int k\<bar> \<le> \<bar>x\<bar> \<and> \<bar>x - real_of_int k\<bar> < 1 \<longrightarrow> k = m))"
proof -
  have call: "generate_translation fl self translator tgt_dict s =
     (case py_int (fadd fl (fmul fl (max_len_a (args self)) (size1 (src_tokens s)))
                     (max_len_b (args self))) of
        Inl e \<Rightarrow> [Inl e]
      | Inr m \<Rightarrow>
          map (yield_item (src_tokens s) (pad tgt_dict)
                 (translator (encoder_input_of self s) (beam (args self)) m))
              (enumerate 0 (ids s)))"
    by (simp add: generate_translation_def maxlen_of_def Let_def split: sum.splits)
  obtain m where m: "py_int (Finite x) = Inr m" "\<bar>real_of_int m\<bar> \<le> \<bar>x\<bar>"
      "\<bar>x - real_of_int m\<bar> < 1"
    using py_int_Finite_bounds[of x] by blast
  have "\<forall>k. \<bar>real_of_int k\<bar> \<le> \<bar>x\<bar> \<and> \<bar>x - real_of_int k\<bar> < 1 \<longrightarrow> k = m"
    using truncation_unique[OF _ _ m(2) m(3)] by blast
  with call m show ?thesis by blast
qed

theorem maxlen_truncates_witness:
  "generate_translation demo_float demo_self demo_forward_translator demo_dict demo_batch =
     [Inr (0, [5, 6], [\<lparr>tokens = [7, 2], score = 0\<rparr>, \<lparr>tokens = [7, 9], score = - 1\<rparr>])] \<and>
   fadd demo_float (fmul demo_float (max_len_a (args demo_self)) (size1 (src_tokens demo_batch)))
     (max_len_b (args demo_self)) = Finite (11 / 4) \<and>
   py_int (Finite (11 / 4)) = Inr 2 \<and>
   \<bar>real_of_int 2\<bar> \<le> \<bar>11 / 4 :: real\<bar> \<and> \<bar>11 / 4 - real_of_int 2\<bar> < (1::real)"
  using maxlen_truncates[of demo_float demo_self demo_forward_translator demo_dict demo_batch
      "11 / 4"]
  by (simp add: demo_defs yield_item_def strip_pad_def encoder_input_of_def encoder_keys_def)

subsection \<open>The reward loop\<close>

text \<open>
  C2, as stated, at a concrete batch: the forward decode step produces two hypotheses for
  the example, the second of which ends with the token 9, not with the end-of-sequence id 2;
  the step does not raise, it returns.
\<close>

theorem lower_hypothesis_unchecked_counterexample:
  "generate_translation (float_arith demo_ext) demo_self (forward_translator demo_ext) demo_dict
     demo_batch =
     [Inr (0, [5, 6], [\<lparr>tokens = [7, 2], score = 0\<rparr>, \<lparr>tokens = [7, 9], score = - 1\<rparr>])] \<and>
   last (tokens \<lparr>tokens = [7, 9], score = - 1\<rparr>) \<noteq> eos demo_dict \<and>
   forward demo_self demo_ext demo_batch demo_dict demo_dict =
     Inr (6, 2, [(''primal'', Dict [(''loss'', Num 3), (''sample_size'', Num 1)]),
                 (''dual'', Dict [(''loss'', Num 3), (''sample_size'', Num 1)])])"
  by (simp add: forward_def demo_defs step_defs)

text \<open>
  C2, amended. Only the top-ranked hypothesis of each decoded example is checked. When the
  step returns, the top-ranked hypothesis of every decoded example is non-empty and ends
  with the end-of-sequence id of the target vocabulary. When the loop reaches an example
  with a non-empty source whose top-ranked hypothesis is non-empty and ends with another
  token, the step raises: \<^verbatim>\<open>AssertionError\<close>, after the backward sample has been built and
  scored, unless the backward decode raised before.
\<close>

theorem top_hypothesis_must_end_with_eos:
  "(\<forall>i src hypos r.
      Inr (i, src, hypos) \<in> set (generate_translation (float_arith ext) self (forward_translator ext) tgt_dict smp) \<and>
      forward self ext smp tgt_dict src_dict = Inr r \<longrightarrow>
      hypos \<noteq> [] \<and> tokens (hd hypos) \<noteq> [] \<and> last (tokens (hd hypos)) = eos tgt_dict) \<and>
   (\<forall>st i (src::int list) (h0::hypo) hs.
      src \<noteq> [] \<and> tokens h0 \<noteq> [] \<and> last (tokens h0) \<noteq> eos tgt_dict \<longrightarrow>
      snd (reward_step self ext tgt_dict src_dict lm_score st (Inr (i, src, h0 # hs))) =
        (case reconstruction_score self ext src_dict
                \<lparr>id_field = i,
                 source = (if remove_eos_at_src self then butlast (tokens h0) else tokens h0),
                 target = (if last src \<noteq> eos tgt_dict then src @ [eos tgt_dict] else src),
                 weights = 1 - alpha self\<rparr>
                (if last src \<noteq> eos tgt_dict then src @ [eos tgt_dict] else src) of
           Inl e \<Rightarrow> Some e
         | Inr sc \<Rightarrow> Some AssertionError))"
proof (intro conjI allI impI)
  fix i src hypos r
  assume a: "Inr (i, src, hypos) \<in> set (generate_translation (float_arith ext) self (forward_translator ext) tgt_dict smp) \<and>
      forward self ext smp tgt_dict src_dict = Inr r"
  then obtain st where "build_samples self ext smp tgt_dict src_dict = (st, None)"
    using forward_Inr_build by blast
  then have "reward_loop self ext tgt_dict src_dict lm_score
      \<lparr>forward_samples = [], backward_samples = []\<rparr>
      (generate_translation (float_arith ext) self (forward_translator ext) tgt_dict smp) = (st, None)"
    by (simp add: build_samples_def Let_def)
  from reward_loop_None[OF this] obtain triples where
    g: "generate_translation (float_arith ext) self (forward_translator ext) tgt_dict smp = map Inr triples"
    and ok: "list_all (\<lambda>t. snd (snd t) \<noteq> [] \<and> tokens (hd (snd (snd t))) \<noteq> [] \<and>
                        last (tokens (hd (snd (snd t)))) = eos tgt_dict) triples"
    by auto
  from a g have "(i, src, hypos) \<in> set triples" by auto
  with ok have "snd (snd (i, src, hypos)) \<noteq> [] \<and> tokens (hd (snd (snd (i, src, hypos)))) \<noteq> [] \<and>
                        last (tokens (hd (snd (snd (i, src, hypos))))) = eos tgt_dict"
    unfolding list_all_iff by blast
  then show "hypos \<noteq> []" "tokens (hd hypos) \<noteq> []" "last (tokens (hd hypos)) = eos tgt_dict"
    by simp_all
next
  fix st i and src :: "int list" and h0 :: hypo and hs
  assume a: "src \<noteq> [] \<and> tokens h0 \<noteq> [] \<and> last (tokens h0) \<noteq> eos tgt_dict"
  then have s: "src \<noteq> []" by simp
  show "snd (reward_step self ext tgt_dict src_dict lm_score st (Inr (i, src, h0 # hs))) =
        (case reconstruction_score self ext src_dict
                \<lparr>id_field = i,
                 source = (if remove_eos_at_src self then butlast (tokens h0) else tokens h0),
                 target = (if last src \<noteq> eos tgt_dict then src @ [eos tgt_dict] else src),
                 weights = 1 - alpha self\<rparr>
                (if last src \<noteq> eos tgt_dict then src @ [eos tgt_dict] else src) of
           Inl e \<Rightarrow> Some e
         | Inr sc \<Rightarrow> Some AssertionError)"
    using a by (simp add: reward_step_runs[OF s] split: sum.splits)
qed

theorem top_hypothesis_must_end_with_eos_witness:
  "forward demo_self demo_ext demo_batch demo_dict demo_dict =
     Inr (6, 2, [(''primal'', Dict [(''loss'', Num 3), (''sample_size'', Num 1)]),
                 (''dual'', Dict [(''loss'', Num 3), (''sample_size'', Num 1)])]) \<and>
   last (tokens (hd [\<lparr>tokens = [7, 2], score = 0\<rparr>, \<lparr>tokens = [7, 9], score = - 1\<rparr>])) = eos demo_dict \<and>
   last (tokens \<lparr>tokens = [7, 9], score = 0\<rparr>) \<noteq> eos demo_dict \<and>
   snd (reward_step demo_self demo_bad_ext demo_dict demo_dict lm_score
          \<lparr>forward_samples = [], backward_samples = []\<rparr>
          (Inr (0, [5, 6], [\<lparr>tokens = [7, 9], score = 0\<rparr>]))) = Some AssertionError"
proof -
  note t1 = top_hypothesis_must_end_with_eos[of demo_ext demo_self demo_dict demo_batch demo_dict]
  note t2 = top_hypothesis_must_end_with_eos[of demo_bad_ext demo_self demo_dict demo_batch demo_dict]
  have m: "Inr (0, [5, 6], [\<lparr>tokens = [7, 2], score = 0\<rparr>, \<lparr>tokens = [7, 9], score = - 1\<rparr>])
      \<in> set (generate_translation (float_arith demo_ext) demo_self (forward_translator demo_ext) demo_dict
     demo_batch)"
    by (simp add: demo_generate)
  from t1 m demo_forward
  have 1: "last (tokens (hd [\<lparr>tokens = [7, 2], score = 0\<rparr>, \<lparr>tokens = [7, 9], score = - 1\<rparr>])) = eos demo_dict"
    by blast
  have h: "[5, 6] \<noteq> ([]::int list) \<and> tokens \<lparr>tokens = [7, 9], score = 0\<rparr> \<noteq> [] \<and>
      last (tokens \<lparr>tokens = [7, 9], score = 0\<rparr>) \<noteq> eos demo_dict"
    by (simp add: demo_defs demo_bad_ext_def demo_bad_translator_def)
  from t2 h have "snd (reward_step demo_self demo_bad_ext demo_dict demo_dict lm_score
          \<lparr>forward_samples = [], backward_samples = []\<rparr>
          (Inr (0, [5, 6], [\<lparr>tokens = [7, 9], score = 0\<rparr>]))) =
        (case reconstruction_score demo_self demo_bad_ext demo_dict
                \<lparr>id_field = 0,
                 source = (if remove_eos_at_src demo_self then butlast (tokens \<lparr>tokens = [7, 9], score = 0\<rparr>) else tokens \<lparr>tokens = [7, 9], score = 0\<rparr>),
                 target = (if last [5, 6] \<noteq> eos demo_dict then [5, 6] @ [eos demo_dict] else [5, 6]),
                 weights = 1 - alpha demo_self\<rparr>
                (if last [5, 6] \<noteq> eos demo_dict then [5, 6] @ [eos demo_dict] else [5, 6]) of
           Inl e \<Rightarrow> Some e
         | Inr sc \<Rightarrow> Some AssertionError)"
    by blast
  moreover have "reconstruction_score demo_self demo_bad_ext demo_dict
                \<lparr>id_field = 0,
                 source = (if remove_eos_at_src demo_self then butlast (tokens \<lparr>tokens = [7, 9], score = 0\<rparr>) else tokens \<lparr>tokens = [7, 9], score = 0\<rparr>),
                 target = (if last [5, 6] \<noteq> eos demo_dict then [5, 6] @ [eos demo_dict] else [5, 6]),
                 weights = 1 - alpha demo_self\<rparr>
                (if last [5, 6] \<noteq> eos demo_dict then [5, 6] @ [eos demo_dict] else [5, 6]) = Inr 100"
    by (simp add: demo_defs demo_bad_ext_def demo_bad_translator_def step_defs)
  ultimately have 2: "snd (reward_step demo_self demo_bad_ext demo_dict demo_dict lm_score
          \<lparr>forward_samples = [], backward_samples = []\<rparr>
          (Inr (0, [5, 6], [\<lparr>tokens = [7, 9], score = 0\<rparr>]))) = Some AssertionError"
    by simp
  from 1 2 h demo_forward show ?thesis by simp
qed

text \<open>
  C4. For every decoded example the loop completes, the weight of the forward sample
  (\<^verbatim>\<open>total_reward\<close>) is \<^verbatim>\<open>alpha * 0.5 + (1 - alpha) * (score / 100)\<close>, where \<^verbatim>\<open>score\<close> is
  the n-gram score of the reconstruction obtained from the backward sample just appended;
  and when \<^verbatim>\<open>alpha\<close> is in \<open>[0, 1]\<close> and the score in \<open>[0, 100]\<close>, it lies in \<open>[0, 1]\<close>.
\<close>

theorem total_reward_formula_and_bounds:
  assumes "reward_step self ext tgt_dict src_dict lm_score st (Inr (i, src, hypos)) = (st', None)"
  shows "\<exists>sc b. backward_samples st' = backward_samples st @ [b] \<and>
           reconstruction_score self ext src_dict b (target b) = Inr sc \<and>
           forward_samples st' = forward_samples st @
             [\<lparr>id_field = i, source = src, target = tokens (hd hypos),
               weights = alpha self * 0.5 + (1 - alpha self) * (sc / 100)\<rparr>] \<and>
           (0 \<le> alpha self \<and> alpha self \<le> 1 \<and> 0 \<le> sc \<and> sc \<le> 100 \<longrightarrow>
              0 \<le> weights (last (forward_samples st')) \<and>
              weights (last (forward_samples st')) \<le> 1)"
proof (rule reward_step_None[OF assms])
  fix i' src' h0 hs sc
  assume it: "Inr (i, src, hypos) = Inr (i', src', h0 # hs)"
    and rs: "reconstruction_score self ext src_dict
       \<lparr>id_field = i',
        source = (if remove_eos_at_src self then butlast (tokens h0) else tokens h0),
        target = (if last src' \<noteq> eos tgt_dict then src' @ [eos tgt_dict] else src'),
        weights = 1 - alpha self\<rparr>
       (if last src' \<noteq> eos tgt_dict then src' @ [eos tgt_dict] else src') = Inr sc"
    and b: "backward_samples st' = backward_samples st @
       [\<lparr>id_field = i',
         source = (if remove_eos_at_src self then butlast (tokens h0) else tokens h0),
         target = (if last src' \<noteq> eos tgt_dict then src' @ [eos tgt_dict] else src'),
         weights = 1 - alpha self\<rparr>]"
    and f: "forward_samples st' = forward_samples st @
       [\<lparr>id_field = i', source = src', target = tokens h0,
         weights = alpha self * lm_score + (1 - alpha self) * (sc / 100)\<rparr>]"
  let ?b = "\<lparr>id_field = i',
         source = (if remove_eos_at_src self then butlast (tokens h0) else tokens h0),
         target = (if last src' \<noteq> eos tgt_dict then src' @ [eos tgt_dict] else src'),
         weights = 1 - alpha self\<rparr>"
  from it have eqs: "i' = i" "src' = src" "hypos = h0 # hs" by simp_all
  have f': "forward_samples st' = forward_samples st @
             [\<lparr>id_field = i, source = src, target = tokens (hd hypos),
               weights = alpha self * 0.5 + (1 - alpha self) * (sc / 100)\<rparr>]"
    using f eqs by (simp add: lm_score_def)
  have rs': "reconstruction_score self ext src_dict ?b (target ?b) = Inr sc"
    using rs by simp
  have bd: "0 \<le> alpha self \<and> alpha self \<le> 1 \<and> 0 \<le> sc \<and> sc \<le> 100 \<longrightarrow>
              0 \<le> weights (last (forward_samples st')) \<and>
              weights (last (forward_samples st')) \<le> 1"
    using convex_bounds[of "alpha self" sc] by (simp add: f')
  from b rs' f' bd show ?thesis by blast
qed

theorem total_reward_formula_and_bounds_witness:
  "reward_step demo_self demo_ext demo_dict demo_dict lm_score
       \<lparr>forward_samples = [], backward_samples = []\<rparr>
       (Inr (0, [5, 6], [\<lparr>tokens = [7, 2], score = 0\<rparr>, \<lparr>tokens = [7, 9], score = - 1\<rparr>])) =
     (\<lparr>forward_samples = [\<lparr>id_field = 0, source = [5, 6], target = [7, 2], weights = 7 / 8\<rparr>],
       backward_samples = [\<lparr>id_field = 0, source = [7], target = [5, 6, 2], weights = 3 / 4\<rparr>]\<rparr>,
      None) \<and>
   reconstruction_score demo_self demo_ext demo_dict
       \<lparr>id_field = 0, source = [7], target = [5, 6, 2], weights = 3 / 4\<rparr> [5, 6, 2] = Inr 100 \<and>
   alpha demo_self * 0.5 + (1 - alpha demo_self) * (100 / 100) = 7 / 8 \<and>
   0 \<le> alpha demo_self \<and> alpha demo_self \<le> 1 \<and> (0::real) \<le> 7 / 8 \<and> (7 / 8 :: real) \<le> 1"
proof -
  have st: "reward_step demo_self demo_ext demo_dict demo_dict lm_score
       \<lparr>forward_samples = [], backward_samples = []\<rparr>
       (Inr (0, [5, 6], [\<lparr>tokens = [7, 2], score = 0\<rparr>, \<lparr>tokens = [7, 9], score = - 1\<rparr>])) =
     (\<lparr>forward_samples = [\<lparr>id_field = 0, source = [5, 6], target = [7, 2], weights = 7 / 8\<rparr>],
       backward_samples = [\<lparr>id_field = 0, source = [7], target = [5, 6, 2], weights = 3 / 4\<rparr>]\<rparr>,
      None)"
    by (simp add: demo_defs step_defs)
  have rs: "reconstruction_score demo_self demo_ext demo_dict
       \<lparr>id_field = 0, source = [7], target = [5, 6, 2], weights = 3 / 4\<rparr> [5, 6, 2] = Inr 100"
    by (simp add: demo_defs step_defs)
  from total_reward_formula_and_bounds[OF st] st rs show ?thesis
    by (simp add: demo_defs)
qed

text \<open>
  C7. Every backward-direction sample built by the loop has the weight
  \<^verbatim>\<open>1 - reward_alpha\<close>, whatever the batch, the decoders and the scorer are, and whether
  or not the loop completes.
\<close>

theorem backward_weight_is_one_minus_alpha:
  "map weights (backward_samples (fst (build_samples (init a uc) ext smp tgt_dict src_dict))) =
     replicate (length (backward_samples (fst (build_samples (init a uc) ext smp tgt_dict src_dict))))
       (1 - reward_alpha a)"
proof -
  let ?bs = "backward_samples (fst (build_samples (init a uc) ext smp tgt_dict src_dict))"
  obtain n where n: "map weights ?bs = replicate n (1 - alpha (init a uc))"
    using reward_loop_backward_weights[of "init a uc" ext tgt_dict src_dict lm_score
        "\<lparr>forward_samples = [], backward_samples = []\<rparr>"
        "generate_translation (float_arith ext) (init a uc) (forward_translator ext) tgt_dict smp"]
    by (auto simp: build_samples_def Let_def)
  then have "length ?bs = n" by (metis length_map length_replicate)
  with n show ?thesis by (simp add: init_def)
qed

theorem backward_weight_is_one_minus_alpha_witness:
  "map weights (backward_samples
       (fst (build_samples (init demo_args False) demo_ext demo_pair_batch demo_dict demo_dict))) =
     [3 / 4, 3 / 4] \<and>
   1 - reward_alpha demo_args = 3 / 4"
  using backward_weight_is_one_minus_alpha[of demo_args False demo_ext demo_pair_batch demo_dict demo_dict]
  by (simp add: demo_defs demo_pair_batch_def step_defs)

text \<open>
  C8, as stated, at a concrete batch: a source that already ends with two end-of-sequence
  tokens is left as it is, so the backward target ends with a duplicated end-of-sequence
  token.
\<close>

theorem duplicated_eos_counterexample:
  "map target (backward_samples
       (fst (build_samples demo_self demo_ext demo_eos_batch demo_dict demo_dict))) =
     [[] @ [eos demo_dict, eos demo_dict]]"
  by (simp add: demo_defs demo_eos_batch_def step_defs)

text \<open>
  C8, amended. For a non-empty original source used as the backward target: if its last
  token is not the end-of-sequence id, exactly one is appended; if it is, nothing is
  appended. The target always ends with the end-of-sequence id, and it ends with two of them
  only if the source itself already did.
\<close>

theorem backward_target_eos:
  assumes "src \<noteq> []"
  shows "\<exists>b. backward_samples
               (fst (reward_step self ext tgt_dict src_dict fr st (Inr (i, src, h0 # hs)))) =
             backward_samples st @ [b] \<and>
           (last src \<noteq> eos tgt_dict \<longrightarrow> target b = src @ [eos tgt_dict]) \<and>
           (last src = eos tgt_dict \<longrightarrow> target b = src) \<and>
           last (target b) = eos tgt_dict \<and>
           ((\<exists>p. target b = p @ [eos tgt_dict, eos tgt_dict]) \<longrightarrow>
              (\<exists>p. src = p @ [eos tgt_dict, eos tgt_dict]))"
proof -
  let ?b = "\<lparr>id_field = i,
          source = (if remove_eos_at_src self then butlast (tokens h0) else tokens h0),
          target = (if last src \<noteq> eos tgt_dict then src @ [eos tgt_dict] else src),
          weights = 1 - alpha self\<rparr>"
  have 1: "backward_samples
               (fst (reward_step self ext tgt_dict src_dict fr st (Inr (i, src, h0 # hs)))) =
             backward_samples st @ [?b]"
    using assms by (simp add: reward_step_backward)
  have 2: "(\<exists>p. target ?b = p @ [eos tgt_dict, eos tgt_dict]) \<longrightarrow>
              (\<exists>p. src = p @ [eos tgt_dict, eos tgt_dict])"
  proof (cases "last src = eos tgt_dict")
    case True
    then show ?thesis by simp
  next
    case False
    {
      fix p assume "src @ [eos tgt_dict] = p @ [eos tgt_dict, eos tgt_dict]"
      then have "src @ [eos tgt_dict] = (p @ [eos tgt_dict]) @ [eos tgt_dict]" by simp
      then have "src = p @ [eos tgt_dict]" by (simp only: append1_eq_conv)
      then have "last src = eos tgt_dict" by simp
      with False have False by simp
    }
    with False show ?thesis by auto
  qed
  have 3: "last (target ?b) = eos tgt_dict" by simp
  show ?thesis
    by (rule exI[of _ ?b]) (use 1 2 3 in simp)
qed

theorem backward_target_eos_witness:
  "[5, 6] \<noteq> ([]::int list) \<and> last [5, 6] \<noteq> eos demo_dict \<and>
   backward_samples
     (fst (reward_step demo_self demo_ext demo_dict demo_dict lm_score
        \<lparr>forward_samples = [], backward_samples = []\<rparr>
        (Inr (0, [5, 6], [\<lparr>tokens = [7, 2], score = 0\<rparr>])))) =
     [\<lparr>id_field = 0, source = [7], target = [5, 6] @ [eos demo_dict], weights = 3 / 4\<rparr>]"
proof -
  have ne: "[5, 6] \<noteq> ([]::int list)" by simp
  from backward_target_eos[OF ne, of demo_self demo_ext demo_dict demo_dict lm_score
      "\<lparr>forward_samples = [], backward_samples = []\<rparr>" 0 "\<lparr>tokens = [7, 2], score = 0\<rparr>" "[]"]
  show ?thesis by (simp add: demo_defs step_defs)
qed

text \<open>
  C9. When the reward loop completes, the forward-sample list and the backward-sample list
  hold exactly one sample for each decoded example, in the order of the batch: both have the
  length of the batch, which is the number of elements the forward generator yields.
\<close>

theorem sample_lists_same_length:
  assumes "build_samples self ext smp tgt_dict src_dict = (st, None)"
  shows "map id_field (forward_samples st) = ids smp \<and>
         map id_field (backward_samples st) = ids smp \<and>
         length (forward_samples st) = length (ids smp) \<and>
         length (backward_samples st) = length (ids smp) \<and>
         length (generate_translation (float_arith ext) self (forward_translator ext) tgt_dict smp) = length (ids smp)"
proof -
  from assms have "reward_loop self ext tgt_dict src_dict lm_score
      \<lparr>forward_samples = [], backward_samples = []\<rparr>
      (generate_translation (float_arith ext) self (forward_translator ext) tgt_dict smp) = (st, None)"
    by (simp add: build_samples_def Let_def)
  from reward_loop_None[OF this] obtain triples where
    g: "generate_translation (float_arith ext) self (forward_translator ext) tgt_dict smp = map Inr triples"
    and f: "map id_field (forward_samples st) = map fst triples"
    and b: "map id_field (backward_samples st) = map fst triples"
    by auto
  from generate_translation_ids[OF g] have i: "map fst triples = ids smp" .
  have "length (generate_translation (float_arith ext) self (forward_translator ext) tgt_dict smp) = length (ids smp)"
    using g i by (metis length_map)
  moreover have "length (forward_samples st) = length (ids smp)"
    using f i by (metis length_map)
  moreover have "length (backward_samples st) = length (ids smp)"
    using b i by (metis length_map)
  ultimately show ?thesis using f b i by simp
qed

theorem sample_lists_same_length_witness:
  "build_samples demo_self demo_ext demo_pair_batch demo_dict demo_dict =
     (\<lparr>forward_samples =
         [\<lparr>id_field = 0, source = [5, 6], target = [7, 2], weights = 7 / 8\<rparr>,
          \<lparr>id_field = 1, source = [8, 2], target = [7, 2], weights = 5 / 16\<rparr>],
       backward_samples =
         [\<lparr>id_field = 0, source = [7], target = [5, 6, 2], weights = 3 / 4\<rparr>,
          \<lparr>id_field = 1, source = [7], target = [8, 2], weights = 3 / 4\<rparr>]\<rparr>, None) \<and>
   length (ids demo_pair_batch) = 2"
proof -
  have b: "build_samples demo_self demo_ext demo_pair_batch demo_dict demo_dict =
     (\<lparr>forward_samples =
         [\<lparr>id_field = 0, source = [5, 6], target = [7, 2], weights = 7 / 8\<rparr>,
          \<lparr>id_field = 1, source = [8, 2], target = [7, 2], weights = 5 / 16\<rparr>],
       backward_samples =
         [\<lparr>id_field = 0, source = [7], target = [5, 6, 2], weights = 3 / 4\<rparr>,
          \<lparr>id_field = 1, source = [7], target = [8, 2], weights = 3 / 4\<rparr>]\<rparr>, None)"
    by (simp add: demo_defs demo_pair_batch_def step_defs)
  from sample_lists_same_length[OF b] b show ?thesis by simp
qed

text \<open>
  C10. When \<^verbatim>\<open>append_eos_to_source\<close> is false, the backward sample's source is the top
  forward hypothesis without its last token, whatever that token is: the sample is appended
  whether or not the step then fails the end-of-sequence assertion.
\<close>

theorem backward_source_drops_last_token:
  assumes "\<not> append_eos_to_source a" and "src \<noteq> []"
  shows "map source (backward_samples
           (fst (reward_step (init a uc) ext tgt_dict src_dict fr st (Inr (i, src, h0 # hs))))) =
         map source (backward_samples st) @ [butlast (tokens h0)]"
  using assms by (simp add: reward_step_backward init_def)

theorem backward_source_drops_last_token_witness:
  "\<not> append_eos_to_source demo_args \<and> [5, 6] \<noteq> ([]::int list) \<and>
   last (tokens \<lparr>tokens = [7, 9], score = 0\<rparr>) \<noteq> eos demo_dict \<and>
   map source (backward_samples
      (fst (reward_step (init demo_args False) demo_bad_ext demo_dict demo_dict lm_score
         \<lparr>forward_samples = [], backward_samples = []\<rparr>
         (Inr (0, [5, 6], [\<lparr>tokens = [7, 9], score = 0\<rparr>]))))) = [[7]] \<and>
   snd (reward_step (init demo_args False) demo_bad_ext demo_dict demo_dict lm_score
         \<lparr>forward_samples = [], backward_samples = []\<rparr>
         (Inr (0, [5, 6], [\<lparr>tokens = [7, 9], score = 0\<rparr>]))) = Some AssertionError"
proof -
  have a: "\<not> append_eos_to_source demo_args" by (simp add: demo_defs demo_bad_ext_def demo_bad_translator_def)
  have ne: "[5, 6] \<noteq> ([]::int list)" by simp
  have e: "snd (reward_step (init demo_args False) demo_bad_ext demo_dict demo_dict lm_score
         \<lparr>forward_samples = [], backward_samples = []\<rparr>
         (Inr (0, [5, 6], [\<lparr>tokens = [7, 9], score = 0\<rparr>]))) = Some AssertionError"
    by (simp add: demo_defs demo_bad_ext_def demo_bad_translator_def step_defs)
  from backward_source_drops_last_token[OF a ne, of False demo_bad_ext demo_dict demo_dict lm_score
      "\<lparr>forward_samples = [], backward_samples = []\<rparr>" 0 "\<lparr>tokens = [7, 9], score = 0\<rparr>" "[]"]
    a e show ?thesis by (simp add: demo_defs demo_bad_ext_def demo_bad_translator_def)
qed

end
